theory Spec2Isabelle
  imports Complex_Main
begin

section \<open>Work-accounting model (storage/database.py)\<close>

text \<open>
  The peewee models \<^verbatim>\<open>Set\<close>, \<^verbatim>\<open>Job\<close> and \<^verbatim>\<open>Run\<close> as records. Python integers are
  \<open>int\<close>, float columns and timestamps are \<open>real\<close>; every object carries its primary
  key \<^verbatim>\<open>id\<close>. The record of a Set is called \<open>set_model\<close>, since \<open>set\<close> is taken in
  HOL. \<open>set_job\<close> is the foreign key \<^verbatim>\<open>job\<close> of a Set: the id of its Job, or \<open>None\<close>
  when it was never assigned (the Sets that \<^verbatim>\<open>Job.from_dict\<close> builds). The Queue foreign
  key and the creation time of a Job take no part in the operations below and are left out.

  \<^verbatim>\<open>job.sets\<close> is the back-reference of the foreign key: each read of it is a new
  SELECT of the rows of the table of Sets, unless \<^verbatim>\<open>Job.from_dict\<close> has assigned a list
  to the attribute, which then hides the back-reference. \<open>job_sets\<close> is that list, or
  \<open>None\<close> for a Job whose Sets are read from the database.
\<close>

record set_model =
  set_id :: nat
  set_path :: string
  set_sd :: bool
  set_job :: "nat option"
  set_rank :: real
  set_count :: int
  set_remaining :: int
  material_keys :: string

record job =
  job_id :: nat
  job_name :: string
  job_draft :: bool
  job_rank :: real
  job_count :: int
  job_remaining :: int
  job_sets :: "set_model list option"

record run =
  run_queueName :: string
  run_jobName :: string
  run_path :: string
  run_start :: real
  run_end :: "real option"
  run_result :: "string option"

text \<open>
  The database \<^verbatim>\<open>DB.queues\<close>, as far as these operations read and write it: the rows
  of the tables of Jobs and of Sets. A row of a Job has no list of Sets.
\<close>

record store =
  job_rows :: "job list"
  set_rows :: "set_model list"

text \<open>
  A lookup that finds no row raises \<^verbatim>\<open>DoesNotExist\<close>, as does reading a foreign key that
  was never assigned; a write that breaks a CHECK constraint raises \<^verbatim>\<open>IntegrityError\<close>.
\<close>

datatype db_error = DoesNotExist | IntegrityError

text \<open>Python's \<^verbatim>\<open>str.split(sep)\<close> for a one-character separator: never an empty list.\<close>

fun split_sep :: "char \<Rightarrow> string \<Rightarrow> string list" where
  "split_sep c [] = [[]]"
| "split_sep c (x # xs) =
     (if x = c then [] # split_sep c xs
      else (case split_sep c xs of
              [] \<Rightarrow> [[x]]
            | w # ws \<Rightarrow> (x # w) # ws))"

text \<open>\<^verbatim>\<open>Set.materials\<close>: the comma-separated keys, one entry per tool slot.\<close>

definition materials :: "set_model \<Rightarrow> string list" where
  "materials s =
     (if material_keys s = [] then [] else split_sep (CHR '','') (material_keys s))"

subsection \<open>Reads and writes of the database\<close>

text \<open>The CHECK constraints on the columns \<^verbatim>\<open>count\<close> and \<^verbatim>\<open>remaining\<close> of both tables.\<close>

definition set_checks :: "set_model \<Rightarrow> bool" where
  "set_checks s = (0 < set_count s \<and> 0 \<le> set_remaining s \<and> set_remaining s \<le> set_count s)"

definition job_checks :: "job \<Rightarrow> bool" where
  "job_checks j = (0 < job_count j \<and> 0 \<le> job_remaining j \<and> job_remaining j \<le> job_count j)"

text \<open>
  \<^verbatim>\<open>self.save()\<close> of an object with a primary key: an UPDATE of the row with this key,
  which writes every field the object holds. Without such a row nothing is written; with
  one, the new values must pass the constraints. A Set whose foreign key was never
  assigned holds no value for it, and the row keeps its own.
\<close>

definition save_job :: "job \<Rightarrow> store \<Rightarrow> db_error + store" where
  "save_job j st =
     (if list_ex (\<lambda>r. job_id r = job_id j) (job_rows st) \<and> \<not> job_checks j
      then Inl IntegrityError
      else Inr (st\<lparr>job_rows :=
                   map (\<lambda>r. if job_id r = job_id j then j\<lparr>job_sets := None\<rparr> else r)
                       (job_rows st)\<rparr>))"

definition saved_row :: "set_model \<Rightarrow> set_model \<Rightarrow> set_model" where
  "saved_row s r = (case set_job s of None \<Rightarrow> s\<lparr>set_job := set_job r\<rparr> | Some jid \<Rightarrow> s)"

definition save_set :: "set_model \<Rightarrow> store \<Rightarrow> db_error + store" where
  "save_set s st =
     (if list_ex (\<lambda>r. set_id r = set_id s) (set_rows st) \<and> \<not> set_checks s
      then Inl IntegrityError
      else Inr (st\<lparr>set_rows := map (\<lambda>r. if set_id r = set_id s then saved_row s r else r)
                                     (set_rows st)\<rparr>))"

text \<open>
  \<^verbatim>\<open>Set.update(remaining=Set.count).where(Set.job == self).execute()\<close> for the Job with
  the id \<open>jid\<close>.
\<close>

definition reset_row :: "nat \<Rightarrow> set_model \<Rightarrow> set_model" where
  "reset_row jid r = (if set_job r = Some jid then r\<lparr>set_remaining := set_count r\<rparr> else r)"

definition update_sets :: "nat \<Rightarrow> store \<Rightarrow> db_error + store" where
  "update_sets jid st =
     (let rows = map (reset_row jid) (set_rows st)
      in if list_ex (\<lambda>r. set_job r = Some jid \<and> \<not> set_checks r) rows
         then Inl IntegrityError
         else Inr (st\<lparr>set_rows := rows\<rparr>))"

text \<open>\<^verbatim>\<open>self.sets\<close> of a Job: the assigned list, or else the rows that point to the Job.\<close>

definition sets_of :: "store \<Rightarrow> job \<Rightarrow> set_model list" where
  "sets_of st j =
     (case job_sets j of
        Some ss \<Rightarrow> ss
      | None \<Rightarrow> filter (\<lambda>r. set_job r = Some (job_id j)) (set_rows st))"

text \<open>\<^verbatim>\<open>self.job\<close> of a Set with the foreign key \<open>jid\<close>: the Job read from its row.\<close>

definition get_job :: "nat \<Rightarrow> store \<Rightarrow> job option" where
  "get_job jid st =
     map_option (\<lambda>r. r\<lparr>job_sets := None\<rparr>) (find (\<lambda>r. job_id r = jid) (job_rows st))"

subsection \<open>The methods of Job and Set\<close>

text \<open>\<^verbatim>\<open>Job.has_incomplete_sets\<close> and \<^verbatim>\<open>Job.has_work\<close>.\<close>

definition has_incomplete_sets :: "store \<Rightarrow> job \<Rightarrow> bool" where
  "has_incomplete_sets st j = list_ex (\<lambda>s. 0 < set_remaining s) (sets_of st j)"

definition has_work :: "store \<Rightarrow> job \<Rightarrow> bool" where
  "has_work st j = (has_incomplete_sets st j \<or> 0 < job_remaining j)"

text \<open>
  The loop \<^verbatim>\<open>for s in self.sets: s.remaining = s.count\<close>: it writes to the objects of an
  assigned list; the objects of a SELECT are dropped after the loop, so for a Job read
  from the database nothing is left of it.
\<close>

definition reset_sets :: "set_model list \<Rightarrow> set_model list" where
  "reset_sets ss = map (\<lambda>s. s\<lparr>set_remaining := set_count s\<rparr>) ss"

definition reset_own_sets :: "job \<Rightarrow> job" where
  "reset_own_sets j =
     (case job_sets j of
        Some ss \<Rightarrow> j\<lparr>job_sets := Some (reset_sets ss)\<rparr>
      | None \<Rightarrow> j)"

text \<open>
  \<^verbatim>\<open>Job.decrement(save)\<close> on the Job object \<open>j\<close> with the database \<open>st\<close>: the returned
  flag, the database and the object after the call.
\<close>

definition job_decrement :: "bool \<Rightarrow> store \<Rightarrow> job \<Rightarrow> db_error + (bool \<times> store \<times> job)" where
  "job_decrement save st j =
     (let j1 = j\<lparr>job_remaining := max (job_remaining j - 1) 0\<rparr>
      in case (if save then save_job j1 st else Inr st) of
           Inl e \<Rightarrow> Inl e
         | Inr st1 \<Rightarrow>
             (if 0 < job_remaining j1 then
                (if save then
                   (case update_sets (job_id j1) st1 of
                      Inl e \<Rightarrow> Inl e
                    | Inr st2 \<Rightarrow> Inr (has_work st2 j1, st2, j1))
                 else
                   (let j2 = reset_own_sets j1 in Inr (has_work st1 j2, st1, j2)))
              else Inr (has_work st1 j1, st1, j1)))"

text \<open>
  \<^verbatim>\<open>Set.decrement(save)\<close> on the Set object \<open>s\<close>: the database, the object and the Job
  object \<^verbatim>\<open>self.job\<close> after the call.
\<close>

definition set_decrement ::
  "bool \<Rightarrow> store \<Rightarrow> set_model \<Rightarrow> db_error + (store \<times> set_model \<times> job)" where
  "set_decrement save st s =
     (let s1 = s\<lparr>set_remaining := max 0 (set_remaining s - 1)\<rparr>
      in case (if save then save_set s1 st else Inr st) of
           Inl e \<Rightarrow> Inl e
         | Inr st1 \<Rightarrow>
             (case set_job s1 of
                None \<Rightarrow> Inl DoesNotExist
              | Some jid \<Rightarrow>
                  (case get_job jid st1 of
                     None \<Rightarrow> Inl DoesNotExist
                   | Some j \<Rightarrow>
                       (if \<not> has_incomplete_sets st1 j then
                          (case job_decrement save st1 j of
                             Inl e \<Rightarrow> Inl e
                           | Inr (b, st2, j2) \<Rightarrow> Inr (st2, s1, j2))
                        else Inr (st1, s1, j)))))"

text \<open>\<^verbatim>\<open>Job.normalize\<close>.\<close>

definition normalize :: "store \<Rightarrow> job \<Rightarrow> db_error + (bool \<times> store \<times> job)" where
  "normalize st j =
     (if job_remaining j = 0 then Inr (has_incomplete_sets st j, st, j)
      else if has_incomplete_sets st j then Inr (True, st, j)
      else job_decrement True st j)"

text \<open>
  The bounds \<open>0 \<le> remaining \<le> count\<close>: of a Set, of a Job object and the Sets of its own
  list, and of all rows of the database.
\<close>

definition set_bounds :: "set_model \<Rightarrow> bool" where
  "set_bounds s = (0 \<le> set_remaining s \<and> set_remaining s \<le> set_count s)"





section \<open>The driver (driver.py)\<close>

datatype Action = ACTIVATE | DEACTIVATE | SUCCESS | FAILURE | SPAGHETTI | TICK

datatype Printer = IDLE | PAUSED | BUSY

text \<open>
  \<^verbatim>\<open>self.state\<close> holds one of the bound methods \<^verbatim>\<open>_state_*\<close>; the datatype names them.
\<close>

datatype dstate =
    State_unknown
  | State_inactive
  | State_start_print
  | State_printing
  | State_paused
  | State_spaghetti_recovery
  | State_failure
  | State_success
  | State_start_clearing
  | State_clearing
  | State_start_finishing
  | State_finishing

text \<open>An attribute read on \<^verbatim>\<open>None\<close> raises \<^verbatim>\<open>AttributeError\<close>.\<close>

datatype error = AttributeError

subsection \<open>String formatting\<close>

definition digit_char :: "nat \<Rightarrow> char" where
  "digit_char n = ''0123456789'' ! (n mod 10)"

fun str_nat :: "nat \<Rightarrow> string" where
  "str_nat n = (if n < 10 then [digit_char n] else str_nat (n div 10) @ [digit_char (n mod 10)])"

declare str_nat.simps [simp del]

definition str_int :: "int \<Rightarrow> string" where
  "str_int i = (if i < 0 then CHR ''-'' # str_nat (nat (- i)) else str_nat (nat i))"

text \<open>\<^verbatim>\<open>str\<close> of a value that is a string or \<^verbatim>\<open>None\<close>.\<close>

definition str_opt :: "string option \<Rightarrow> string" where
  "str_opt v = (case v of None \<Rightarrow> ''None'' | Some s \<Rightarrow> s)"

text \<open>Python's \<^verbatim>\<open>round\<close> to an integer: halves go to the even neighbour.\<close>

definition py_round :: "real \<Rightarrow> int" where
  "py_round x =
     (let f = \<lfloor>x\<rfloor>; r = x - of_int f
      in if r < 1 / 2 then f
         else if 1 / 2 < r then f + 1
         else if even f then f else f + 1)"

definition timeAgo :: "real \<Rightarrow> string" where
  "timeAgo elapsed =
     (if elapsed < 60 * 60 then str_int (py_round (elapsed / 60)) @ '' minutes''
      else if elapsed < 60 * 60 * 24 then str_int (py_round (elapsed / (60 * 60))) @ '' hours''
      else str_int (py_round (elapsed / (60 * 60 * 24))) @ '' days'')"

subsection \<open>Collaborators and the Driver object\<close>

text \<open>
  The queue facade \<^verbatim>\<open>self.q\<close> and the script runner \<^verbatim>\<open>self._runner\<close> are objects handed
  to the constructor. Their joint state is a value of type \<open>'e\<close>, and their methods are
  the fields of \<open>collab\<close>: reads return a value, the others return the new state (and
  their result, where the driver uses one).
\<close>

record 'e collab =
  get_set_or_acquire :: "'e \<Rightarrow> set_model option \<times> 'e"
  get_set :: "'e \<Rightarrow> set_model option"
  get_run :: "'e \<Rightarrow> run option"
  begin_run :: "'e \<Rightarrow> 'e"
  end_run :: "string \<Rightarrow> 'e \<Rightarrow> 'e"
  start_print :: "set_model \<Rightarrow> 'e \<Rightarrow> bool \<times> 'e"
  cancel_print :: "'e \<Rightarrow> 'e"
  clear_bed :: "'e \<Rightarrow> 'e"
  run_finish_script :: "'e \<Rightarrow> 'e"

text \<open>The calls that change a collaborator, in the order the driver makes them.\<close>

datatype call =
    Get_set_or_acquire
  | Begin_run
  | End_run string
  | Start_print set_model
  | Cancel_print
  | Clear_bed
  | Run_finish_script

fun is_runner_call :: "call \<Rightarrow> bool" where
  "is_runner_call (Start_print _) = True"
| "is_runner_call Cancel_print = True"
| "is_runner_call Clear_bed = True"
| "is_runner_call Run_finish_script = True"
| "is_runner_call _ = False"

text \<open>
  The fields of \<^verbatim>\<open>Driver\<close>, with the state of the collaborators (\<open>world\<close>) and the log of
  the calls made to them (\<open>calls\<close>).
\<close>

record 'e driver =
  status :: "string option"
  state :: dstate
  retries :: int
  retry_on_pause :: bool
  max_retries :: int
  retry_threshold_seconds :: real
  first_print :: bool
  update_ui :: bool
  cur_path :: "string option"
  cur_materials :: "string option list"
  world :: 'e
  calls :: "call list"

definition set_status :: "string \<Rightarrow> 'e driver \<Rightarrow> 'e driver" where
  "set_status s d =
     (if Some s \<noteq> status d then d\<lparr>update_ui := True, status := Some s\<rparr> else d)"

text \<open>\<^verbatim>\<open>Driver.__init__\<close>: the dirty flag set by the first status is cleared again.\<close>

definition init_driver :: "'e \<Rightarrow> 'e driver" where
  "init_driver w =
     \<lparr>status = Some ''Initializing'', state = State_unknown, retries = 0,
      retry_on_pause = False, max_retries = 0, retry_threshold_seconds = 0,
      first_print = True, update_ui = False, cur_path = None, cur_materials = [],
      world = w, calls = []\<rparr>"

definition set_retry_on_pause :: "bool \<Rightarrow> int \<Rightarrow> real \<Rightarrow> 'e driver \<Rightarrow> 'e driver" where
  "set_retry_on_pause enabled mr thr d =
     d\<lparr>retry_on_pause := enabled, max_retries := mr, retry_threshold_seconds := thr\<rparr>"

definition current_path :: "'e collab \<Rightarrow> 'e driver \<Rightarrow> string option" where
  "current_path ops d = (case get_set ops (world d) of None \<Rightarrow> None | Some it \<Rightarrow> Some (set_path it))"

text \<open>A collaborator method that returns nothing the driver uses.\<close>

definition invoke :: "call \<Rightarrow> ('e \<Rightarrow> 'e) \<Rightarrow> 'e driver \<Rightarrow> 'e driver" where
  "invoke c f d = d\<lparr>world := f (world d), calls := calls d @ [c]\<rparr>"

subsection \<open>The state handlers\<close>

text \<open>
  A handler returns the next state (\<open>None\<close> for Python's \<^verbatim>\<open>None\<close>: stay) and the
  driver after its writes.
\<close>

definition state_unknown :: "Action \<Rightarrow> Printer \<Rightarrow> 'e driver \<Rightarrow> dstate option \<times> 'e driver" where
  "state_unknown a p d = (if a = DEACTIVATE then (Some State_inactive, d) else (None, d))"

text \<open>
  The material loop of \<^verbatim>\<open>_state_start_print\<close>, from slot \<open>i\<close> on: the first entry that is
  not \<^verbatim>\<open>None\<close> and differs from the loaded material of its slot, with the slot and what
  is loaded there; \<open>None\<close> when the loop runs to its end.
\<close>

fun check_materials ::
  "nat \<Rightarrow> string option list \<Rightarrow> string option list \<Rightarrow> (string \<times> nat \<times> string option) option" where
  "check_materials i [] cm = None"
| "check_materials i (None # ims) cm = check_materials (Suc i) ims cm"
| "check_materials i (Some im # ims) cm =
     (let cur = (if i < length cm then cm ! i else None)
      in if Some im \<noteq> cur then Some (im, i, cur) else check_materials (Suc i) ims cm)"

text \<open>
  The entries of \<^verbatim>\<open>item.materials()\<close> as the loop sees them: \<^verbatim>\<open>Set.materials\<close> returns
  strings, so none of them is \<^verbatim>\<open>None\<close>.
\<close>

definition item_materials :: "set_model \<Rightarrow> string option list" where
  "item_materials it = map Some (materials it)"

definition state_start_print ::
  "'e collab \<Rightarrow> Action \<Rightarrow> Printer \<Rightarrow> 'e driver \<Rightarrow> dstate option \<times> 'e driver" where
  "state_start_print ops a p d =
     (if a = DEACTIVATE then (Some State_inactive, d)
      else if p \<noteq> IDLE then (None, set_status ''Waiting for printer to be ready'' d)
      else
        (let (item, w) = get_set_or_acquire ops (world d);
             d1 = d\<lparr>world := w, calls := calls d @ [Get_set_or_acquire]\<rparr>
         in case item of
              None \<Rightarrow> (Some State_inactive, set_status ''No work to do; going inactive'' d1)
            | Some it \<Rightarrow>
                (case check_materials 0 (item_materials it) (cur_materials d1) of
                   Some (im, i, cur) \<Rightarrow>
                     (None,
                      set_status (''Waiting for spool '' @ im @ '' in tool '' @ str_nat i
                                  @ '' (currently: '' @ str_opt cur @ '')'') d1)
                 | None \<Rightarrow>
                     (let d2 = invoke Begin_run (begin_run ops) d1;
                          (ok, w2) = start_print ops it (world d2);
                          d3 = d2\<lparr>world := w2, calls := calls d2 @ [Start_print it]\<rparr>
                      in (if ok then Some State_printing else None, d3)))))"

definition enter_start_print ::
  "'e collab \<Rightarrow> Action \<Rightarrow> Printer \<Rightarrow> 'e driver \<Rightarrow> dstate option \<times> 'e driver" where
  "enter_start_print ops a p d =
     (case state_start_print ops a p d of
        (Some nxt, d1) \<Rightarrow> (Some nxt, d1)
      | (None, d1) \<Rightarrow> (Some State_start_print, d1))"

definition state_inactive ::
  "'e collab \<Rightarrow> Action \<Rightarrow> Printer \<Rightarrow> 'e driver \<Rightarrow> dstate option \<times> 'e driver" where
  "state_inactive ops a p d =
     (let d1 = d\<lparr>retries := 0\<rparr>
      in if a = ACTIVATE then
           (if p \<noteq> IDLE then (Some State_printing, d1) else enter_start_print ops a p d1)
         else if p = IDLE then (None, set_status ''Inactive (click Start Managing)'' d1)
         else (None, set_status ''Inactive (active print continues unmanaged)'' d1))"

text \<open>
  \<^verbatim>\<open>_state_printing\<close>; \<open>now\<close> is what \<^verbatim>\<open>time.time()\<close> returns. \<^verbatim>\<open>run.start\<close> and
  \<^verbatim>\<open>item.path\<close> raise when \<^verbatim>\<open>get_run()\<close> or \<^verbatim>\<open>get_set()\<close> returned \<^verbatim>\<open>None\<close>.
\<close>

definition state_printing ::
  "'e collab \<Rightarrow> real \<Rightarrow> Action \<Rightarrow> Printer \<Rightarrow> 'e driver
     \<Rightarrow> (error \<times> 'e driver) + (dstate option \<times> 'e driver)" where
  "state_printing ops now a p d =
     (if a = DEACTIVATE then Inr (Some State_inactive, d)
      else if a = FAILURE then Inr (Some State_failure, d)
      else if a = SPAGHETTI then
        (case get_run ops (world d) of
           None \<Rightarrow> Inl (AttributeError, d)
         | Some r \<Rightarrow>
             (let elapsed = now - run_start r
              in if retry_on_pause d \<and> elapsed < retry_threshold_seconds d
                 then Inr (Some State_spaghetti_recovery, d)
                 else Inr (Some State_paused,
                           set_status (''Paused after '' @ timeAgo elapsed @ '' (>''
                                       @ timeAgo (retry_threshold_seconds d)
                                       @ ''); awaiting user'') d)))
      else if a = SUCCESS then
        (case get_set ops (world d) of
           None \<Rightarrow> Inl (AttributeError, d)
         | Some it \<Rightarrow>
             (if Some (set_path it) = cur_path d then Inr (Some State_success, d)
              else Inr (Some State_start_clearing, d)))
      else
        (case p of
           BUSY \<Rightarrow>
             (case get_set ops (world d) of
                Some it \<Rightarrow> Inr (None, set_status ''Printing'' d)
              | None \<Rightarrow> Inr (None, d))
         | PAUSED \<Rightarrow> Inr (Some State_paused, d)
         | IDLE \<Rightarrow> Inr (Some State_success, d)))"

definition state_paused :: "Action \<Rightarrow> Printer \<Rightarrow> 'e driver \<Rightarrow> dstate option \<times> 'e driver" where
  "state_paused a p d =
     (let d1 = set_status ''Queue paused'' d
      in if a = DEACTIVATE \<or> p = IDLE then (Some State_inactive, d1)
         else if p = BUSY then (Some State_printing, d1)
         else (None, d1))"

definition state_spaghetti_recovery ::
  "'e collab \<Rightarrow> Action \<Rightarrow> Printer \<Rightarrow> 'e driver \<Rightarrow> dstate option \<times> 'e driver" where
  "state_spaghetti_recovery ops a p d =
     (let d1 = set_status ''Cancelling print (spaghetti seen early in print)'' d
      in if p = PAUSED then (Some State_failure, invoke Cancel_print (cancel_print ops) d1)
         else (None, d1))"

definition state_failure ::
  "'e collab \<Rightarrow> Action \<Rightarrow> Printer \<Rightarrow> 'e driver \<Rightarrow> dstate option \<times> 'e driver" where
  "state_failure ops a p d =
     (if p \<noteq> IDLE then (None, d)
      else if retries d + 1 < max_retries d
           then (Some State_start_clearing, d\<lparr>retries := retries d + 1\<rparr>)
           else (Some State_inactive, invoke (End_run ''failure'') (end_run ops ''failure'') d))"

definition state_success ::
  "'e collab \<Rightarrow> Action \<Rightarrow> Printer \<Rightarrow> 'e driver \<Rightarrow> dstate option \<times> 'e driver" where
  "state_success ops a p d =
     (let d1 = invoke (End_run ''success'') (end_run ops ''success'') d;
          d2 = d1\<lparr>retries := 0\<rparr>;
          (item, w) = get_set_or_acquire ops (world d2);
          d3 = d2\<lparr>world := w, calls := calls d2 @ [Get_set_or_acquire]\<rparr>
      in case item of
           Some it \<Rightarrow> (Some State_start_clearing, d3)
         | None \<Rightarrow> (Some State_start_finishing, d3))"

definition state_start_clearing ::
  "'e collab \<Rightarrow> Action \<Rightarrow> Printer \<Rightarrow> 'e driver \<Rightarrow> dstate option \<times> 'e driver" where
  "state_start_clearing ops a p d =
     (if a = DEACTIVATE then (Some State_inactive, d)
      else if p \<noteq> IDLE then (None, set_status ''Waiting for printer to be ready'' d)
      else (Some State_clearing, invoke Clear_bed (clear_bed ops) d))"

definition state_clearing ::
  "'e collab \<Rightarrow> Action \<Rightarrow> Printer \<Rightarrow> 'e driver \<Rightarrow> dstate option \<times> 'e driver" where
  "state_clearing ops a p d =
     (if a = DEACTIVATE then (Some State_inactive, d)
      else if a = SUCCESS then enter_start_print ops a p d
      else if a = FAILURE
           then (Some State_inactive, set_status ''Error occurred clearing bed - aborting'' d)
      else if p = IDLE then enter_start_print ops a p d
      else (None, set_status ''Clearing bed'' d))"

definition state_start_finishing ::
  "'e collab \<Rightarrow> Action \<Rightarrow> Printer \<Rightarrow> 'e driver \<Rightarrow> dstate option \<times> 'e driver" where
  "state_start_finishing ops a p d =
     (if a = DEACTIVATE then (Some State_inactive, d)
      else if p \<noteq> IDLE then (None, set_status ''Waiting for printer to be ready'' d)
      else (Some State_finishing, invoke Run_finish_script (run_finish_script ops) d))"

definition state_finishing :: "Action \<Rightarrow> Printer \<Rightarrow> 'e driver \<Rightarrow> dstate option \<times> 'e driver" where
  "state_finishing a p d =
     (if a \<in> set [DEACTIVATE, SUCCESS, FAILURE] then (Some State_inactive, d)
      else if p = IDLE then (Some State_inactive, d)
      else (None, set_status ''Finishing up'' d))"

subsection \<open>Dispatch and \<^verbatim>\<open>Driver.action\<close>\<close>

text \<open>\<^verbatim>\<open>self.state(a, p)\<close>: the call of the handler that \<^verbatim>\<open>self.state\<close> names.\<close>

definition run_state ::
  "'e collab \<Rightarrow> real \<Rightarrow> dstate \<Rightarrow> Action \<Rightarrow> Printer \<Rightarrow> 'e driver
     \<Rightarrow> (error \<times> 'e driver) + (dstate option \<times> 'e driver)" where
  "run_state ops now s a p d =
     (case s of
        State_unknown \<Rightarrow> Inr (state_unknown a p d)
      | State_inactive \<Rightarrow> Inr (state_inactive ops a p d)
      | State_start_print \<Rightarrow> Inr (state_start_print ops a p d)
      | State_printing \<Rightarrow> state_printing ops now a p d
      | State_paused \<Rightarrow> Inr (state_paused a p d)
      | State_spaghetti_recovery \<Rightarrow> Inr (state_spaghetti_recovery ops a p d)
      | State_failure \<Rightarrow> Inr (state_failure ops a p d)
      | State_success \<Rightarrow> Inr (state_success ops a p d)
      | State_start_clearing \<Rightarrow> Inr (state_start_clearing ops a p d)
      | State_clearing \<Rightarrow> Inr (state_clearing ops a p d)
      | State_start_finishing \<Rightarrow> Inr (state_start_finishing ops a p d)
      | State_finishing \<Rightarrow> Inr (state_finishing a p d))"

text \<open>
  \<^verbatim>\<open>Driver.action(a, p, path, materials)\<close> at time \<open>now\<close>: \<open>Inr\<close> the returned flag and
  the driver after the call, \<open>Inl\<close> the exception that escapes and the driver as the
  exception leaves it.
\<close>

definition action ::
  "'e collab \<Rightarrow> real \<Rightarrow> Action \<Rightarrow> Printer \<Rightarrow> string option \<Rightarrow> string option list \<Rightarrow> 'e driver
     \<Rightarrow> (error \<times> 'e driver) + (bool \<times> 'e driver)" where
  "action ops now a p path mats d =
     (let d1 = (case path of None \<Rightarrow> d | Some pa \<Rightarrow> d\<lparr>cur_path := Some pa\<rparr>);
          d2 = (if 0 < length mats then d1\<lparr>cur_materials := mats\<rparr> else d1)
      in case run_state ops now (state d2) a p d2 of
           Inl e \<Rightarrow> Inl e
         | Inr (nxt, d3) \<Rightarrow>
             (let d4 = (case nxt of
                          None \<Rightarrow> d3
                        | Some s \<Rightarrow> d3\<lparr>state := s, update_ui := True\<rparr>)
              in if update_ui d4 then Inr (True, d4\<lparr>update_ui := False\<rparr>)
                 else Inr (False, d4)))"

text \<open>The driver an \<^verbatim>\<open>action\<close> call leaves behind, returned or raised.\<close>

definition after :: "(error \<times> 'e driver) + (bool \<times> 'e driver) \<Rightarrow> 'e driver" where
  "after r = (case r of Inl (e, d) \<Rightarrow> d | Inr (b, d) \<Rightarrow> d)"

definition raised :: "(error \<times> 'e driver) + (bool \<times> 'e driver) \<Rightarrow> bool" where
  "raised r = (case r of Inl _ \<Rightarrow> True | Inr _ \<Rightarrow> False)"

text \<open>
  A series of \<^verbatim>\<open>action\<close> calls, each with its time, event, printer status, path and
  materials; the series ends at the first exception. \<open>states_visited\<close> lists the state
  after each call that returned.
\<close>

type_synonym event = "real \<times> Action \<times> Printer \<times> string option \<times> string option list"

fun run_actions ::
  "'e collab \<Rightarrow> event list \<Rightarrow> 'e driver \<Rightarrow> (error \<times> 'e driver) + 'e driver" where
  "run_actions ops [] d = Inr d"
| "run_actions ops ((now, a, p, path, mats) # evs) d =
     (case action ops now a p path mats d of
        Inl e \<Rightarrow> Inl e
      | Inr (b, d1) \<Rightarrow> run_actions ops evs d1)"

fun states_visited :: "'e collab \<Rightarrow> event list \<Rightarrow> 'e driver \<Rightarrow> dstate list" where
  "states_visited ops [] d = []"
| "states_visited ops ((now, a, p, path, mats) # evs) d =
     (case action ops now a p path mats d of
        Inl e \<Rightarrow> []
      | Inr (b, d1) \<Rightarrow> state d1 # states_visited ops evs d1)"

section \<open>Test doubles and sample data\<close>

text \<open>
  Collaborators that answer every call the same way and keep no state, as the mocks of a
  unit test do: \<open>sel\<close> is the selected Set, \<open>r\<close> the open Run, \<open>ok\<close> what
  \<^verbatim>\<open>start_print\<close> returns.
\<close>

definition fixed_collab :: "set_model option \<Rightarrow> run option \<Rightarrow> bool \<Rightarrow> unit collab" where
  "fixed_collab sel r ok =
     \<lparr>get_set_or_acquire = (\<lambda>w. (sel, w)), get_set = (\<lambda>w. sel),
      get_run = (\<lambda>w. r), begin_run = (\<lambda>w. w), end_run = (\<lambda>res w. w),
      start_print = (\<lambda>it w. (ok, w)), cancel_print = (\<lambda>w. w), clear_bed = (\<lambda>w. w),
      run_finish_script = (\<lambda>w. w)\<rparr>"

text \<open>A Set that needs \<^verbatim>\<open>PLA-Red\<close> in tool 0, and one that needs it in tool 1 only.\<close>

definition red_set :: set_model where
  "red_set = \<lparr>set_id = 1, set_path = ''a.gcode'', set_sd = False, set_job = Some 1,
     set_rank = 0, set_count = 1, set_remaining = 1, material_keys = ''PLA-Red''\<rparr>"

definition slot1_set :: set_model where
  "slot1_set = \<lparr>set_id = 2, set_path = ''b.gcode'', set_sd = False, set_job = Some 1,
     set_rank = 0, set_count = 1, set_remaining = 1, material_keys = '',PLA-Red''\<rparr>"

definition run_at :: "real \<Rightarrow> run" where
  "run_at t = \<lparr>run_queueName = ''local'', run_jobName = ''j'', run_path = ''a.gcode'',
     run_start = t, run_end = None, run_result = None\<rparr>"





text \<open>A driver in a given state, configured by \<^verbatim>\<open>set_retry_on_pause\<close>.\<close>

definition driver_in :: "dstate \<Rightarrow> int \<Rightarrow> unit driver" where
  "driver_in s mr = (set_retry_on_pause True mr 3600 (init_driver ()))\<lparr>state := s\<rparr>"

section \<open>Properties of the work-accounting model\<close>

subsection \<open>Writes keep the bounds and pass the constraints\<close>




lemma saved_row_Some [simp]: "set_job s = Some jid \<Longrightarrow> saved_row s r = s"
  by (simp add: saved_row_def)

lemma saved_row_bounds [simp]: "set_bounds (saved_row s r) = set_bounds s"
  by (simp add: saved_row_def set_bounds_def split: option.splits)

lemma saved_row_checks [simp]: "set_checks (saved_row s r) = set_checks s"
  by (simp add: saved_row_def set_checks_def split: option.splits)















subsection \<open>\<^verbatim>\<open>Job.decrement\<close>\<close>










subsection \<open>\<^verbatim>\<open>Set.decrement\<close>\<close>




text \<open>A Set without a Job, as \<^verbatim>\<open>Job.from_dict\<close> builds it: \<^verbatim>\<open>self.job\<close> raises.\<close>

lemma set_decrement_unassigned:
  "set_job s = None \<Longrightarrow> \<exists>e. set_decrement save st s = Inl e"
  by (auto simp: set_decrement_def Let_def split: sum.splits)




lemma set_id_reset_row [simp]: "set_id (reset_row jid r) = set_id r"
  by (simp add: reset_row_def)






section \<open>Properties of the driver\<close>

lemmas handler_defs = state_unknown_def state_inactive_def state_start_print_def
  enter_start_print_def state_printing_def state_paused_def state_spaghetti_recovery_def
  state_failure_def state_success_def state_start_clearing_def state_clearing_def
  state_start_finishing_def state_finishing_def

lemmas action_defs = action_def run_state_def handler_defs set_status_def invoke_def Let_def
  after_def raised_def

lemmas sample_defs = fixed_collab_def driver_in_def set_retry_on_pause_def init_driver_def

subsection \<open>Single calls of \<^verbatim>\<open>action\<close>\<close>

lemma action_printing_failure:
  "state d = State_printing \<Longrightarrow>
   action ops t FAILURE p None [] d = Inr (True, d\<lparr>state := State_failure, update_ui := False\<rparr>)"
  by (simp add: action_def run_state_def state_printing_def)

lemma action_failure_idle:
  "state d = State_failure \<Longrightarrow>
   action ops t a IDLE None [] d =
     (if retries d + 1 < max_retries d
      then Inr (True, d\<lparr>state := State_start_clearing, retries := retries d + 1, update_ui := False\<rparr>)
      else Inr (True, d\<lparr>state := State_inactive, world := end_run ops ''failure'' (world d),
                        calls := calls d @ [End_run ''failure''], update_ui := False\<rparr>))"
  by (simp add: action_def run_state_def state_failure_def invoke_def)

lemma action_start_clearing_idle:
  "state d = State_start_clearing \<Longrightarrow> a \<noteq> DEACTIVATE \<Longrightarrow>
   action ops t a IDLE None [] d =
     Inr (True, d\<lparr>state := State_clearing, world := clear_bed ops (world d),
                  calls := calls d @ [Clear_bed], update_ui := False\<rparr>)"
  by (simp add: action_def run_state_def state_start_clearing_def invoke_def)

lemma start_print_ok:
  assumes "a \<noteq> DEACTIVATE"
    and "get_set_or_acquire ops (world d) = (Some it, w1)"
    and "check_materials 0 (item_materials it) (cur_materials d) = None"
    and "start_print ops it (begin_run ops w1) = (True, w2)"
  shows "state_start_print ops a IDLE d =
           (Some State_printing,
            d\<lparr>world := w2, calls := calls d @ [Get_set_or_acquire, Begin_run, Start_print it]\<rparr>)"
  using assms by (simp add: state_start_print_def invoke_def)

lemma action_clearing_idle:
  assumes "state d = State_clearing" "a \<notin> {DEACTIVATE, FAILURE}"
    and "get_set_or_acquire ops (world d) = (Some it, w1)"
    and "check_materials 0 (item_materials it) (cur_materials d) = None"
    and "start_print ops it (begin_run ops w1) = (True, w2)"
  shows "action ops t a IDLE None [] d =
           Inr (True, d\<lparr>state := State_printing, world := w2,
                        calls := calls d @ [Get_set_or_acquire, Begin_run, Start_print it],
                        update_ui := False\<rparr>)"
  using assms start_print_ok [of a ops d it w1 w2]
  by (auto simp: action_def run_state_def state_clearing_def enter_start_print_def)

subsection \<open>DEACTIVATE\<close>

text \<open>Nine of the twelve handlers send DEACTIVATE to Inactive (Inactive itself stays).\<close>

lemma deactivate_elsewhere:
  "state d \<notin> {State_failure, State_success, State_spaghetti_recovery} \<Longrightarrow>
   \<not> raised (action ops now DEACTIVATE p path mats d) \<and>
   state (after (action ops now DEACTIVATE p path mats d)) = State_inactive"
  by (cases "state d") (auto simp: action_defs split: option.splits)

text \<open>
  Claim C1 says that DEACTIVATE leads to Inactive from every reachable state, Failure,
  Success and SpaghettiRecovery among them. The handlers of these three states do not
  look at the event. From a new driver: DEACTIVATE (Unknown to Inactive), ACTIVATE with a
  busy printer (to Printing), FAILURE (to Failure), and then DEACTIVATE with the printer
  still busy leaves the driver in Failure.
\<close>

theorem deactivate_ignored_in_failure:
  "states_visited (fixed_collab None None False)
     [(0, DEACTIVATE, BUSY, None, []), (1, ACTIVATE, BUSY, None, []),
      (2, FAILURE, BUSY, None, []), (3, DEACTIVATE, BUSY, None, [])] (init_driver ())
   = [State_inactive, State_printing, State_failure, State_failure]"
  by (simp add: action_defs init_driver_def)

subsection \<open>SPAGHETTI while printing\<close>

text \<open>
  Claim C2. In Printing with an open Run, SPAGHETTI leads to SpaghettiRecovery if
  \<^verbatim>\<open>retry_on_pause\<close> is set and the time since the Run's start is strictly below
  \<^verbatim>\<open>retry_threshold_seconds\<close>, and to Paused otherwise. From SpaghettiRecovery the next
  call with printer status PAUSED calls \<^verbatim>\<open>cancel_print\<close> (and nothing else) and leads to
  Failure. The witness has the threshold 3600 s with 10 s and with 4000 s elapsed.
\<close>

theorem printing_spaghetti:
  assumes "state d = State_printing" and "get_run ops (world d) = Some r"
  shows "states_visited ops [(now, SPAGHETTI, p, path, mats)] d =
          [if retry_on_pause d \<and> now - run_start r < retry_threshold_seconds d
           then State_spaghetti_recovery else State_paused]
     \<and> (retry_on_pause d \<and> now - run_start r < retry_threshold_seconds d \<longrightarrow>
          (\<exists>d2. run_actions ops [(now, SPAGHETTI, p, path, mats),
                                  (now1, a1, PAUSED, path1, mats1)] d = Inr d2
             \<and> state d2 = State_failure \<and> calls d2 = calls d @ [Cancel_print]))"
  using assms by (auto simp: action_defs split: option.splits)

theorem printing_spaghetti_witness:
  "state (driver_in State_printing 3) = State_printing
   \<and> get_run (fixed_collab None (Some (run_at 1000)) True) (world (driver_in State_printing 3))
       = Some (run_at 1000)
   \<and> states_visited (fixed_collab None (Some (run_at 1000)) True)
        [(1010, SPAGHETTI, BUSY, None, [])] (driver_in State_printing 3)
       = [State_spaghetti_recovery]
   \<and> states_visited (fixed_collab None (Some (run_at 1000)) True)
        [(5000, SPAGHETTI, BUSY, None, [])] (driver_in State_printing 3)
       = [State_paused]
   \<and> (\<exists>d2. run_actions (fixed_collab None (Some (run_at 1000)) True)
               [(1010, SPAGHETTI, BUSY, None, []), (1011, TICK, PAUSED, None, [])]
               (driver_in State_printing 3) = Inr d2
          \<and> state d2 = State_failure \<and> calls d2 = [Cancel_print])"
proof -
  have h1: "state (driver_in State_printing 3) = State_printing"
    by (simp add: sample_defs)
  have h2: "get_run (fixed_collab None (Some (run_at 1000)) True) (world (driver_in State_printing 3))
       = Some (run_at 1000)"
    by (simp add: fixed_collab_def)
  have v: "retry_on_pause (driver_in State_printing 3)"
    "retry_threshold_seconds (driver_in State_printing 3) = 3600"
    "calls (driver_in State_printing 3) = []" "run_start (run_at 1000) = 1000"
    by (simp_all add: sample_defs run_at_def)
  from printing_spaghetti [OF h1 h2, where now = 1010 and p = BUSY and path = None and mats = "[]"
         and ?now1.0 = 1011 and ?a1.0 = TICK and ?path1.0 = None and ?mats1.0 = "[]"]
       printing_spaghetti [OF h1 h2, where now = 5000 and p = BUSY and path = None and mats = "[]"
         and ?now1.0 = 5001 and ?a1.0 = TICK and ?path1.0 = None and ?mats1.0 = "[]"]
  show ?thesis using h1 h2 by (simp add: v)
qed

subsection \<open>Retries after a failure\<close>

text \<open>
  With \<^verbatim>\<open>max_retries = 2\<close>, a queue that keeps offering the Set and a runner that starts
  it: one retry, and the second failure ends the Run.
\<close>

lemma retry_once_then_give_up:
  assumes env: "\<forall>w. fst (get_set_or_acquire ops w) = Some it" "\<forall>w. fst (start_print ops it w)"
    and mat: "check_materials 0 (item_materials it) (cur_materials d) = None"
    and st: "state d = State_printing" "retries d = 0" "max_retries d = 2"
  shows "\<exists>d1 d2 d3 d4 d5 d6.
           action ops t1 FAILURE p1 None [] d = Inr (True, d1) \<and> state d1 = State_failure
         \<and> action ops t2 TICK IDLE None [] d1 = Inr (True, d2) \<and> state d2 = State_start_clearing
         \<and> action ops t3 TICK IDLE None [] d2 = Inr (True, d3) \<and> state d3 = State_clearing
         \<and> action ops t4 TICK IDLE None [] d3 = Inr (True, d4) \<and> state d4 = State_printing
         \<and> action ops t5 FAILURE p5 None [] d4 = Inr (True, d5) \<and> state d5 = State_failure
         \<and> action ops t6 TICK IDLE None [] d5 = Inr (True, d6) \<and> state d6 = State_inactive
         \<and> retries d2 = 1
         \<and> calls d5 = calls d @ [Clear_bed, Get_set_or_acquire, Begin_run, Start_print it]
         \<and> calls d6 = calls d5 @ [End_run ''failure'']"
proof -
  define d1 where "d1 = d\<lparr>state := State_failure, update_ui := False\<rparr>"
  define d2 where "d2 = d1\<lparr>state := State_start_clearing, retries := retries d1 + 1, update_ui := False\<rparr>"
  define d3 where "d3 = d2\<lparr>state := State_clearing, world := clear_bed ops (world d2),
                  calls := calls d2 @ [Clear_bed], update_ui := False\<rparr>"
  define w1 where "w1 = snd (get_set_or_acquire ops (world d3))"
  define w2 where "w2 = snd (start_print ops it (begin_run ops w1))"
  define d4 where "d4 = d3\<lparr>state := State_printing, world := w2,
                        calls := calls d3 @ [Get_set_or_acquire, Begin_run, Start_print it],
                        update_ui := False\<rparr>"
  define d5 where "d5 = d4\<lparr>state := State_failure, update_ui := False\<rparr>"
  define d6 where "d6 = d5\<lparr>state := State_inactive, world := end_run ops ''failure'' (world d5),
                        calls := calls d5 @ [End_run ''failure''], update_ui := False\<rparr>"
  have a1: "action ops t1 FAILURE p1 None [] d = Inr (True, d1)"
    unfolding d1_def using st(1) by (rule action_printing_failure)
  have a2: "action ops t2 TICK IDLE None [] d1 = Inr (True, d2)"
    using st by (simp add: action_failure_idle d1_def d2_def)
  have a3: "action ops t3 TICK IDLE None [] d2 = Inr (True, d3)"
    by (simp add: action_start_clearing_idle d2_def d3_def)
  have g: "get_set_or_acquire ops (world d3) = (Some it, w1)"
    unfolding w1_def using env(1) by (metis prod.collapse)
  have s: "start_print ops it (begin_run ops w1) = (True, w2)"
    unfolding w2_def using env(2) by (metis (full_types) prod.collapse)
  have m: "check_materials 0 (item_materials it) (cur_materials d3) = None"
    using mat by (simp add: d3_def d2_def d1_def)
  have a4: "action ops t4 TICK IDLE None [] d3 = Inr (True, d4)"
    unfolding d4_def by (rule action_clearing_idle [OF _ _ g m s]) (simp_all add: d3_def)
  have a5: "action ops t5 FAILURE p5 None [] d4 = Inr (True, d5)"
    unfolding d5_def by (rule action_printing_failure) (simp add: d4_def)
  have r5: "retries d5 = 1" "max_retries d5 = 2" "state d5 = State_failure"
    using st by (simp_all add: d5_def d4_def d3_def d2_def d1_def)
  have a6: "action ops t6 TICK IDLE None [] d5 = Inr (True, d6)"
    using r5 by (simp add: action_failure_idle d6_def)
  have sts: "state d1 = State_failure" "state d2 = State_start_clearing" "state d3 = State_clearing"
    "state d4 = State_printing" "state d5 = State_failure" "state d6 = State_inactive"
    by (simp_all add: d1_def d2_def d3_def d4_def d5_def d6_def)
  have c5: "calls d5 = calls d @ [Clear_bed, Get_set_or_acquire, Begin_run, Start_print it]"
    by (simp add: d1_def d2_def d3_def d4_def d5_def)
  have c6: "calls d6 = calls d5 @ [End_run ''failure'']"
    by (simp add: d6_def)
  have r2: "retries d2 = 1" using st by (simp add: d2_def d1_def)
  from a1 a2 a3 a4 a5 a6 sts c5 c6 r2 show ?thesis by blast
qed

lemma red_driver_facts:
  "\<forall>w. fst (get_set_or_acquire (fixed_collab (Some red_set) None True) w) = Some red_set"
  "\<forall>w. fst (start_print (fixed_collab (Some red_set) None True) red_set w)"
  "check_materials 0 (item_materials red_set)
     (cur_materials ((driver_in s mr)\<lparr>cur_materials := [Some ''PLA-Red'']\<rparr>)) = None"
  "state ((driver_in s mr)\<lparr>cur_materials := [Some ''PLA-Red'']\<rparr>) = s"
  "retries ((driver_in s mr)\<lparr>cur_materials := [Some ''PLA-Red'']\<rparr>) = 0"
  "max_retries ((driver_in s mr)\<lparr>cur_materials := [Some ''PLA-Red'']\<rparr>) = mr"
  "calls ((driver_in s mr)\<lparr>cur_materials := [Some ''PLA-Red'']\<rparr>) = []"
  by (simp_all add: sample_defs item_materials_def materials_def red_set_def)

text \<open>
  Claim C3, as stated, fails: with \<^verbatim>\<open>max_retries = 2\<close> and \<^verbatim>\<open>retries = 0\<close> the second
  FAILURE-then-IDLE cycle does not reach StartClearing. The sixth call below is the IDLE
  tick after the second failure; it ends in Inactive.
\<close>

theorem two_retries_counterexample:
  "states_visited (fixed_collab (Some red_set) None True)
     [(1, FAILURE, BUSY, None, []), (2, TICK, IDLE, None, []), (3, TICK, IDLE, None, []),
      (4, TICK, IDLE, None, []), (5, FAILURE, BUSY, None, []), (6, TICK, IDLE, None, [])]
     ((driver_in State_printing 2)\<lparr>cur_materials := [Some ''PLA-Red'']\<rparr>) ! 1
   = State_start_clearing
   \<and> states_visited (fixed_collab (Some red_set) None True)
     [(1, FAILURE, BUSY, None, []), (2, TICK, IDLE, None, []), (3, TICK, IDLE, None, []),
      (4, TICK, IDLE, None, []), (5, FAILURE, BUSY, None, []), (6, TICK, IDLE, None, [])]
     ((driver_in State_printing 2)\<lparr>cur_materials := [Some ''PLA-Red'']\<rparr>) ! 5
   = State_inactive
   \<and> states_visited (fixed_collab (Some red_set) None True)
     [(1, FAILURE, BUSY, None, []), (2, TICK, IDLE, None, []), (3, TICK, IDLE, None, []),
      (4, TICK, IDLE, None, []), (5, FAILURE, BUSY, None, []), (6, TICK, IDLE, None, [])]
     ((driver_in State_printing 2)\<lparr>cur_materials := [Some ''PLA-Red'']\<rparr>) ! 5
   \<noteq> State_start_clearing"
proof -
  from retry_once_then_give_up [OF red_driver_facts(1,2,3,4,5,6),
         where ?t1.0 = 1 and ?p1.0 = BUSY and ?t2.0 = 2 and ?t3.0 = 3 and ?t4.0 = 4
           and ?t5.0 = 5 and ?p5.0 = BUSY and ?t6.0 = 6]
  show ?thesis by auto
qed

text \<open>
  Claim C3, amended. In Failure with the printer IDLE the driver retries (one more retry
  counted, on to StartClearing) exactly when \<^verbatim>\<open>retries + 1 < max_retries\<close>; otherwise it
  calls \<^verbatim>\<open>end_run("failure")\<close> and goes to Inactive. So with \<^verbatim>\<open>max_retries = 2\<close> and
  \<^verbatim>\<open>retries = 0\<close> only the first FAILURE-then-IDLE cycle goes through StartClearing and
  Clearing back into Printing, and the second failure already ends the Run as a failure
  and returns to Inactive.
\<close>

theorem failure_retry_budget:
  assumes "\<forall>w. fst (get_set_or_acquire ops w) = Some it" and "\<forall>w. fst (start_print ops it w)"
    and "check_materials 0 (item_materials it) (cur_materials d) = None"
    and "state d = State_printing" and "retries d = 0" and "max_retries d = 2"
  shows "states_visited ops
           [(t1, FAILURE, p1, None, []), (t2, TICK, IDLE, None, []), (t3, TICK, IDLE, None, []),
            (t4, TICK, IDLE, None, []), (t5, FAILURE, p5, None, []), (t6, TICK, IDLE, None, [])] d
         = [State_failure, State_start_clearing, State_clearing, State_printing, State_failure,
            State_inactive]
       \<and> (\<exists>d'. run_actions ops
           [(t1, FAILURE, p1, None, []), (t2, TICK, IDLE, None, []), (t3, TICK, IDLE, None, []),
            (t4, TICK, IDLE, None, []), (t5, FAILURE, p5, None, []), (t6, TICK, IDLE, None, [])] d
             = Inr d'
           \<and> calls d' = calls d @ [Clear_bed, Get_set_or_acquire, Begin_run, Start_print it,
                                    End_run ''failure''])
       \<and> (\<forall>f a t. state f = State_failure \<longrightarrow>
            state (after (action ops t a IDLE None [] f)) =
              (if retries f + 1 < max_retries f then State_start_clearing else State_inactive))"
proof -
  from retry_once_then_give_up [OF assms, of t1 p1 t2 t3 t4 t5 p5 t6]
  obtain d1 d2 d3 d4 d5 d6 where
    "action ops t1 FAILURE p1 None [] d = Inr (True, d1)" "state d1 = State_failure"
    "action ops t2 TICK IDLE None [] d1 = Inr (True, d2)" "state d2 = State_start_clearing"
    "action ops t3 TICK IDLE None [] d2 = Inr (True, d3)" "state d3 = State_clearing"
    "action ops t4 TICK IDLE None [] d3 = Inr (True, d4)" "state d4 = State_printing"
    "action ops t5 FAILURE p5 None [] d4 = Inr (True, d5)" "state d5 = State_failure"
    "action ops t6 TICK IDLE None [] d5 = Inr (True, d6)" "state d6 = State_inactive"
    "calls d5 = calls d @ [Clear_bed, Get_set_or_acquire, Begin_run, Start_print it]"
    "calls d6 = calls d5 @ [End_run ''failure'']"
    by blast
  then show ?thesis by (simp add: action_failure_idle after_def)
qed

theorem failure_retry_budget_witness:
  "max_retries ((driver_in State_printing 2)\<lparr>cur_materials := [Some ''PLA-Red'']\<rparr>) = 2
   \<and> check_materials 0 (item_materials red_set) [Some ''PLA-Red''] = None
   \<and> states_visited (fixed_collab (Some red_set) None True)
       [(1, FAILURE, BUSY, None, []), (2, TICK, IDLE, None, []), (3, TICK, IDLE, None, []),
        (4, TICK, IDLE, None, []), (5, FAILURE, BUSY, None, []), (6, TICK, IDLE, None, [])]
       ((driver_in State_printing 2)\<lparr>cur_materials := [Some ''PLA-Red'']\<rparr>)
     = [State_failure, State_start_clearing, State_clearing, State_printing, State_failure,
        State_inactive]"
proof -
  have m: "check_materials 0 (item_materials red_set) [Some ''PLA-Red''] = None"
    by (simp add: item_materials_def materials_def red_set_def)
  from failure_retry_budget [OF red_driver_facts(1,2,3,4,5,6),
         where ?t1.0 = 1 and ?p1.0 = BUSY and ?t2.0 = 2 and ?t3.0 = 3 and ?t4.0 = 4
           and ?t5.0 = 5 and ?p5.0 = BUSY and ?t6.0 = 6]
  show ?thesis using m red_driver_facts(6) by blast
qed

subsection \<open>Script Runner calls per \<^verbatim>\<open>action\<close>\<close>

lemma calls_set_status [simp]: "calls (set_status s d) = calls d"
  by (simp add: set_status_def)

lemma start_print_calls:
  "\<exists>cs. calls (snd (state_start_print ops a p d)) = calls d @ cs
     \<and> length (filter is_runner_call cs) \<le> 1"
  by (auto simp: state_start_print_def invoke_def Let_def split: prod.splits option.splits)

lemma enter_start_print_calls:
  "\<exists>cs. calls (snd (enter_start_print ops a p d)) = calls d @ cs
     \<and> length (filter is_runner_call cs) \<le> 1"
  using start_print_calls [of ops a p d]
  by (auto simp: enter_start_print_def split: prod.splits option.splits)

lemma inactive_calls:
  "\<exists>cs. calls (snd (state_inactive ops a p d)) = calls d @ cs
     \<and> length (filter is_runner_call cs) \<le> 1"
  using enter_start_print_calls [of ops a p "d\<lparr>retries := 0\<rparr>"]
  by (auto simp: state_inactive_def Let_def)

lemma clearing_calls:
  "\<exists>cs. calls (snd (state_clearing ops a p d)) = calls d @ cs
     \<and> length (filter is_runner_call cs) \<le> 1"
  using enter_start_print_calls [of ops a p d]
  by (auto simp: state_clearing_def Let_def)

lemma printing_calls:
  "calls (case state_printing ops now a p d of Inl (e, d1) \<Rightarrow> d1 | Inr (n, d1) \<Rightarrow> d1) = calls d"
  by (auto simp: state_printing_def Let_def split: option.splits Printer.splits)

lemma run_state_calls:
  "\<exists>cs. calls (case run_state ops now s a p d of Inl (e, d1) \<Rightarrow> d1 | Inr (n, d1) \<Rightarrow> d1)
          = calls d @ cs
     \<and> length (filter is_runner_call cs) \<le> 1"
proof (cases s)
  case State_inactive
  then show ?thesis
    using inactive_calls [of ops a p d] by (auto simp: run_state_def split: prod.splits)
next
  case State_start_print
  then show ?thesis
    using start_print_calls [of ops a p d] by (auto simp: run_state_def split: prod.splits)
next
  case State_printing
  then show ?thesis using printing_calls [of ops now a p d] by (simp add: run_state_def)
next
  case State_clearing
  then show ?thesis
    using clearing_calls [of ops a p d] by (auto simp: run_state_def split: prod.splits)
next
  case State_success
  then show ?thesis
    by (auto simp: run_state_def state_success_def invoke_def Let_def
          split: prod.splits option.splits)
qed (auto simp: run_state_def state_unknown_def state_paused_def state_spaghetti_recovery_def
      state_failure_def state_start_clearing_def state_start_finishing_def state_finishing_def
      invoke_def Let_def)

text \<open>
  Claim C4. One call of \<^verbatim>\<open>Driver.action\<close>, whether it returns or raises and with the
  re-entry of \<^verbatim>\<open>_enter_start_print\<close> included, appends to the log of collaborator calls at
  most one call of the Script Runner (\<^verbatim>\<open>start_print\<close>, \<^verbatim>\<open>cancel_print\<close>, \<^verbatim>\<open>clear_bed\<close> or
  \<^verbatim>\<open>run_finish_script\<close>).
\<close>

theorem one_runner_call_per_action:
  "\<exists>cs. calls (after (action ops now a p path mats d)) = calls d @ cs
     \<and> length (filter is_runner_call cs) \<le> 1"
proof -
  define d2 where "d2 =
    (let d1 = (case path of None \<Rightarrow> d | Some pa \<Rightarrow> d\<lparr>cur_path := Some pa\<rparr>)
     in if 0 < length mats then d1\<lparr>cur_materials := mats\<rparr> else d1)"
  have c: "calls d2 = calls d" by (simp add: d2_def Let_def split: option.splits)
  have "calls (after (action ops now a p path mats d)) =
     calls (case run_state ops now (state d2) a p d2 of Inl (e, d1) \<Rightarrow> d1 | Inr (n, d1) \<Rightarrow> d1)"
    by (auto simp: action_def after_def d2_def Let_def split: sum.splits prod.splits option.splits)
  with run_state_calls [of ops now "state d2" a p d2] c show ?thesis by simp
qed

theorem one_runner_call_per_action_witness:
  "calls (after (action (fixed_collab (Some red_set) None True) 0 ACTIVATE IDLE None
                   [Some ''PLA-Red''] (driver_in State_inactive 3)))
     = [Get_set_or_acquire, Begin_run, Start_print red_set]
   \<and> (\<exists>cs. calls (after (action (fixed_collab (Some red_set) None True) 0 ACTIVATE IDLE None
                   [Some ''PLA-Red''] (driver_in State_inactive 3)))
            = calls (driver_in State_inactive 3) @ cs
          \<and> length (filter is_runner_call cs) \<le> 1)"
proof -
  have "calls (after (action (fixed_collab (Some red_set) None True) 0 ACTIVATE IDLE None
                   [Some ''PLA-Red''] (driver_in State_inactive 3)))
     = [Get_set_or_acquire, Begin_run, Start_print red_set]"
    by (simp add: action_defs sample_defs item_materials_def materials_def red_set_def)
  with one_runner_call_per_action [of "fixed_collab (Some red_set) None True" 0 ACTIVATE IDLE
         None "[Some ''PLA-Red'']" "driver_in State_inactive 3"]
  show ?thesis by blast
qed

subsection \<open>The material check\<close>

lemma str_nat_0: "str_nat 0 = ''0''"
  by (simp add: str_nat.simps digit_char_def)

lemma materials_slot1_set: "materials slot1_set = [[], ''PLA-Red'']"
  by (simp add: materials_def slot1_set_def)

text \<open>An entry that is \<^verbatim>\<open>None\<close> is skipped by the loop; an empty string is not.\<close>

lemma check_materials_None: "check_materials i (None # ims) cm = check_materials (Suc i) ims cm"
  by simp

lemma check_materials_empty_string:
  "(if i < length cm then cm ! i else None) \<noteq> Some [] \<Longrightarrow>
   check_materials i (Some [] # ims) cm = Some ([], i, if i < length cm then cm ! i else None)"
  by auto

text \<open>
  The example of the spec: the Set needs \<^verbatim>\<open>PLA-Red\<close> in tool 0. With \<^verbatim>\<open>PLA-Black\<close> loaded
  the driver waits in StartPrint and names the slot; once \<^verbatim>\<open>PLA-Red\<close> is loaded the next
  call opens the Run and starts the print.
\<close>

lemma material_gate_example:
  "\<exists>d1 d2. action (fixed_collab (Some red_set) None True) 1 ACTIVATE IDLE None
              [Some ''PLA-Black''] (driver_in State_inactive 3) = Inr (True, d1)
     \<and> state d1 = State_start_print
     \<and> status d1 = Some ''Waiting for spool PLA-Red in tool 0 (currently: PLA-Black)''
     \<and> calls d1 = [Get_set_or_acquire]
     \<and> action (fixed_collab (Some red_set) None True) 2 TICK IDLE None
              [Some ''PLA-Red''] d1 = Inr (True, d2)
     \<and> state d2 = State_printing
     \<and> calls d2 = [Get_set_or_acquire, Get_set_or_acquire, Begin_run, Start_print red_set]"
  by (simp add: action_defs sample_defs item_materials_def materials_def red_set_def
        str_nat_0 str_opt_def)

text \<open>
  Claim C5 says that an empty material entry puts no constraint on its slot and is skipped.
  The loop skips \<^verbatim>\<open>None\<close>, but \<^verbatim>\<open>Set.materials\<close> splits the comma-separated keys and so
  gives the empty string for an empty entry. A Set with the keys \<^verbatim>\<open>",PLA-Red"\<close> asks for
  \<^verbatim>\<open>PLA-Red\<close> in tool 1 only; with \<^verbatim>\<open>PLA-Black\<close> in tool 0 and \<^verbatim>\<open>PLA-Red\<close> in tool 1 the
  driver still waits in StartPrint, for a spool with the empty name in tool 0, and
  neither \<^verbatim>\<open>begin_run\<close> nor \<^verbatim>\<open>start_print\<close> is called.
\<close>

theorem empty_material_entry_blocks:
  "materials slot1_set = ['''', ''PLA-Red'']
   \<and> (\<exists>d'. run_actions (fixed_collab (Some slot1_set) None True)
             [(0, DEACTIVATE, IDLE, None, []),
              (1, ACTIVATE, IDLE, None, [Some ''PLA-Black'', Some ''PLA-Red'']),
              (2, TICK, IDLE, None, [Some ''PLA-Black'', Some ''PLA-Red''])]
             (init_driver ()) = Inr d'
          \<and> state d' = State_start_print
          \<and> status d' = Some ''Waiting for spool  in tool 0 (currently: PLA-Black)''
          \<and> calls d' = [Get_set_or_acquire, Get_set_or_acquire])"
  by (simp add: action_defs sample_defs item_materials_def materials_slot1_set
        str_nat_0 str_opt_def)

subsection \<open>Paused\<close>

text \<open>
  Claim C8, as stated, fails: in Paused, ACTIVATE with printer status PAUSED leaves the
  driver in Paused. The driver gets there from a new one by DEACTIVATE, ACTIVATE with a
  busy printer, and a tick with the printer paused.
\<close>

theorem paused_activate_counterexample:
  "states_visited (fixed_collab None None False)
     [(0, DEACTIVATE, BUSY, None, []), (1, ACTIVATE, BUSY, None, []),
      (2, TICK, PAUSED, None, []), (3, ACTIVATE, PAUSED, None, [])] (init_driver ())
   = [State_inactive, State_printing, State_paused, State_paused]"
  by (simp add: action_defs sample_defs)

text \<open>
  Claim C8, amended. In Paused, the event DEACTIVATE (for any printer status) and the
  printer status IDLE (for any event) lead to Inactive; otherwise printer status BUSY leads
  back to Printing and printer status PAUSED leaves the driver in Paused. ACTIVATE is
  treated like any other event.
\<close>

theorem paused_transitions:
  assumes "state d = State_paused"
  shows "\<not> raised (action ops now a p path mats d)
       \<and> state (after (action ops now a p path mats d)) =
           (if a = DEACTIVATE \<or> p = IDLE then State_inactive
            else if p = BUSY then State_printing else State_paused)"
  using assms by (auto simp: action_defs split: option.splits)

theorem paused_transitions_witness:
  "state (driver_in State_paused 3) = State_paused
   \<and> state (after (action (fixed_collab None None False) 0 DEACTIVATE PAUSED None []
                     (driver_in State_paused 3))) = State_inactive
   \<and> state (after (action (fixed_collab None None False) 0 ACTIVATE IDLE None []
                     (driver_in State_paused 3))) = State_inactive
   \<and> state (after (action (fixed_collab None None False) 0 ACTIVATE BUSY None []
                     (driver_in State_paused 3))) = State_printing
   \<and> state (after (action (fixed_collab None None False) 0 ACTIVATE PAUSED None []
                     (driver_in State_paused 3))) = State_paused"
proof -
  have h: "state (driver_in State_paused 3) = State_paused"
    by (simp add: sample_defs)
  from paused_transitions [OF h, of "fixed_collab None None False" 0 DEACTIVATE PAUSED None "[]"]
       paused_transitions [OF h, of "fixed_collab None None False" 0 ACTIVATE IDLE None "[]"]
       paused_transitions [OF h, of "fixed_collab None None False" 0 ACTIVATE BUSY None "[]"]
       paused_transitions [OF h, of "fixed_collab None None False" 0 ACTIVATE PAUSED None "[]"]
  show ?thesis using h by simp
qed

subsection \<open>Entering StartPrint\<close>

text \<open>
  Claim C9. When the driver enters StartPrint with the printer IDLE (from Inactive on
  ACTIVATE, or from Clearing on SUCCESS or on any event other than DEACTIVATE and FAILURE),
  the queue offers a Set, the loaded materials pass the check and \<^verbatim>\<open>start_print\<close> returns
  true, then the same call of \<^verbatim>\<open>action\<close> ends in Printing: it selects the Set, opens the
  Run and starts the print, and returns true.
\<close>

theorem start_print_same_call:
  assumes "state d = State_inactive \<and> a = ACTIVATE
           \<or> state d = State_clearing \<and> a \<notin> {DEACTIVATE, FAILURE}"
    and "get_set_or_acquire ops (world d) = (Some it, w1)"
    and "check_materials 0 (item_materials it) (if mats = [] then cur_materials d else mats) = None"
    and "start_print ops it (begin_run ops w1) = (True, w2)"
  shows "\<exists>d'. action ops now a IDLE path mats d = Inr (True, d') \<and> state d' = State_printing
           \<and> calls d' = calls d @ [Get_set_or_acquire, Begin_run, Start_print it]"
  using assms by (auto simp: action_defs split: option.splits)

theorem start_print_same_call_witness:
  "check_materials 0 (item_materials red_set) [Some ''PLA-Red''] = None
   \<and> (\<exists>d'. action (fixed_collab (Some red_set) None True) 0 ACTIVATE IDLE None
              [Some ''PLA-Red''] (driver_in State_inactive 3) = Inr (True, d')
          \<and> state d' = State_printing)
   \<and> (\<exists>d'. action (fixed_collab (Some red_set) None True) 0 SUCCESS IDLE None
              [Some ''PLA-Red''] (driver_in State_clearing 3) = Inr (True, d')
          \<and> state d' = State_printing)"
proof -
  have m: "check_materials 0 (item_materials red_set) [Some ''PLA-Red''] = None"
    by (simp add: item_materials_def materials_def red_set_def)
  have m': "check_materials 0 (item_materials red_set)
      (if [Some ''PLA-Red''] = [] then cur_materials (driver_in s 3) else [Some ''PLA-Red'']) = None"
    for s using m by simp
  have g: "get_set_or_acquire (fixed_collab (Some red_set) None True) (world (driver_in s 3))
             = (Some red_set, ())" for s
    by (simp add: fixed_collab_def)
  have s: "start_print (fixed_collab (Some red_set) None True) red_set
             (begin_run (fixed_collab (Some red_set) None True) ()) = (True, ())"
    by (simp add: fixed_collab_def)
  have i: "state (driver_in State_inactive 3) = State_inactive \<and> ACTIVATE = ACTIVATE
           \<or> state (driver_in State_inactive 3) = State_clearing \<and> ACTIVATE \<notin> {DEACTIVATE, FAILURE}"
    by (simp add: sample_defs)
  have c: "state (driver_in State_clearing 3) = State_inactive \<and> SUCCESS = ACTIVATE
           \<or> state (driver_in State_clearing 3) = State_clearing \<and> SUCCESS \<notin> {DEACTIVATE, FAILURE}"
    by (simp add: sample_defs)
  from start_print_same_call [OF i g m' s, of 0 None]
       start_print_same_call [OF c g m' s, of 0 None]
  show ?thesis using m by blast
qed

subsection \<open>SUCCESS while printing with no Set selected\<close>

text \<open>
  Claim C10. In Printing, when \<^verbatim>\<open>get_set()\<close> returns \<^verbatim>\<open>None\<close>: the event SUCCESS makes
  \<^verbatim>\<open>action\<close> raise (the handler reads \<^verbatim>\<open>item.path\<close> with no check), while an event without
  a branch of its own (ACTIVATE, TICK) with printer status BUSY returns and leaves the
  driver in Printing, the status text untouched.
\<close>

theorem printing_success_no_set:
  assumes "state d = State_printing" and "get_set ops (world d) = None"
  shows "(\<exists>d'. action ops now SUCCESS p path mats d = Inl (AttributeError, d'))
       \<and> (a \<in> {ACTIVATE, TICK} \<longrightarrow>
            \<not> raised (action ops now a BUSY path mats d)
            \<and> state (after (action ops now a BUSY path mats d)) = State_printing
            \<and> status (after (action ops now a BUSY path mats d)) = status d)"
  using assms by (auto simp: action_defs split: option.splits)

theorem printing_success_no_set_witness:
  "state (driver_in State_printing 3) = State_printing
   \<and> get_set (fixed_collab None None True) (world (driver_in State_printing 3)) = None
   \<and> raised (action (fixed_collab None None True) 0 SUCCESS IDLE None [] (driver_in State_printing 3))
   \<and> \<not> raised (action (fixed_collab None None True) 0 TICK BUSY None [] (driver_in State_printing 3))"
proof -
  have h1: "state (driver_in State_printing 3) = State_printing"
    by (simp add: sample_defs)
  have h2: "get_set (fixed_collab None None True) (world (driver_in State_printing 3)) = None"
    by (simp add: fixed_collab_def)
  from printing_success_no_set [OF h1 h2, of 0 IDLE None "[]" TICK]
  show ?thesis using h1 h2 by (auto simp: raised_def)
qed

end
